theory Spec2Isabelle
  imports Complex_Main "HOL-Library.Word" "HOL-Library.Monad_Syntax"
begin

unbundle bit_operations_syntax

section \<open>Python values used by the bot\<close>

text \<open>
  A Python \<open>str\<close> is a sequence of Unicode code points, so it is modelled as a list of
  naturals: slicing and \<open>len\<close> count code points.  A \<open>bytes\<close> object is a list of
  octets.  Literals of the source are written through \<open>py_str\<close>, which maps an ASCII
  literal to its code points.
\<close>

type_synonym pystr = "nat list"
type_synonym byte = "8 word"
type_synonym bytes = "byte list"

definition py_str :: "string \<Rightarrow> pystr" where
  "py_str s = map of_char s"

text \<open>The exceptions the modelled code can raise.\<close>

datatype exn = TypeError | UnicodeEncodeError | UnicodeDecodeError | JSONDecodeError
  | RecursionError

text \<open>
  \<open>str.isspace\<close> for one code point: the characters that \<open>str.strip()\<close> and
  \<open>str.split()\<close> without arguments treat as whitespace.
\<close>

definition py_isspace :: "nat \<Rightarrow> bool" where
  "py_isspace c \<longleftrightarrow>
     (9 \<le> c \<and> c \<le> 13) \<or> (28 \<le> c \<and> c \<le> 32) \<or> c = 0x85 \<or> c = 0xA0 \<or> c = 0x1680 \<or>
     (0x2000 \<le> c \<and> c \<le> 0x200A) \<or> c = 0x2028 \<or> c = 0x2029 \<or> c = 0x202F \<or>
     c = 0x205F \<or> c = 0x3000"

text \<open>\<open>s.strip()\<close>.\<close>

definition py_strip :: "pystr \<Rightarrow> pystr" where
  "py_strip s = rev (dropWhile py_isspace (rev (dropWhile py_isspace s)))"

text \<open>
  \<open>s.split(sep)\<close> for a separator of one character: the fields between the
  separators, so the result is never empty (the \<open>[]\<close> branch of the \<open>case\<close> is not
  reached).
\<close>

fun py_split1 :: "nat \<Rightarrow> pystr \<Rightarrow> pystr list" where
  "py_split1 sep [] = [[]]"
| "py_split1 sep (c # cs) =
     (if c = sep then [] # py_split1 sep cs
      else (case py_split1 sep cs of [] \<Rightarrow> [[c]] | f # fs \<Rightarrow> (c # f) # fs))"

text \<open>\<open>s.startswith(prefix)\<close>.\<close>

definition startswith :: "pystr \<Rightarrow> pystr \<Rightarrow> bool" where
  "startswith s pre \<longleftrightarrow> take (length pre) s = pre"

text \<open>
  The builtin \<open>int(s)\<close> on a string is a parameter of \<open>parse_chat_ids\<close> below (\<open>None\<close>
  stands for its \<open>ValueError\<close>).  \<open>py_int\<close> is the builtin on ASCII input: optional
  surrounding whitespace, an optional sign, and decimal digits that single underscores
  may separate.
\<close>

definition is_digit :: "nat \<Rightarrow> bool" where
  "is_digit c \<longleftrightarrow> 48 \<le> c \<and> c \<le> 57"

fun int_digits :: "nat \<Rightarrow> pystr \<Rightarrow> nat option" where
  "int_digits acc [] = Some acc"
| "int_digits acc [c] = (if is_digit c then Some (10 * acc + (c - 48)) else None)"
| "int_digits acc (c # d # ds) =
     (if is_digit c then int_digits (10 * acc + (c - 48)) (d # ds)
      else if c = 95 \<and> is_digit d then int_digits (10 * acc + (d - 48)) ds
      else None)"

definition int_unsigned :: "pystr \<Rightarrow> nat option" where
  "int_unsigned s =
     (case s of [] \<Rightarrow> None
      | c # cs \<Rightarrow> if is_digit c then int_digits (c - 48) cs else None)"

definition int_isspace :: "nat \<Rightarrow> bool" where
  "int_isspace c \<longleftrightarrow> (9 \<le> c \<and> c \<le> 13) \<or> c = 32 \<or> (128 \<le> c \<and> py_isspace c)"

definition py_int :: "pystr \<Rightarrow> int option" where
  "py_int s =
     (case rev (dropWhile int_isspace (rev (dropWhile int_isspace s))) of
        [] \<Rightarrow> None
      | c # cs \<Rightarrow>
          if c = 45 then map_option (\<lambda>n. - int n) (int_unsigned cs)
          else if c = 43 then map_option int (int_unsigned cs)
          else map_option int (int_unsigned (c # cs)))"

subsection \<open>UTF-8\<close>

text \<open>
  \<open>s.encode('utf-8')\<close>; \<open>None\<close> stands for \<open>UnicodeEncodeError\<close>, raised for a lone
  surrogate.
\<close>

definition utf8_encode_char :: "nat \<Rightarrow> bytes option" where
  "utf8_encode_char c =
     (if c < 0x80 then Some [of_nat c]
      else if c < 0x800 then Some [of_nat (0xC0 + c div 64), of_nat (0x80 + c mod 64)]
      else if 0xD800 \<le> c \<and> c \<le> 0xDFFF then None
      else if c < 0x10000 then
        Some [of_nat (0xE0 + c div 4096), of_nat (0x80 + c div 64 mod 64),
              of_nat (0x80 + c mod 64)]
      else if c < 0x110000 then
        Some [of_nat (0xF0 + c div 262144), of_nat (0x80 + c div 4096 mod 64),
              of_nat (0x80 + c div 64 mod 64), of_nat (0x80 + c mod 64)]
      else None)"

definition utf8_encode :: "pystr \<Rightarrow> bytes option" where
  "utf8_encode s = map_option concat (those (map utf8_encode_char s))"

text \<open>
  \<open>b.decode('utf-8')\<close> on the octet values; \<open>None\<close> stands for \<open>UnicodeDecodeError\<close>
  (a stray or missing continuation byte, an overlong form, a surrogate, a value above
  \<open>0x10FFFF\<close>).
\<close>

definition utf8_cont :: "nat \<Rightarrow> bool" where
  "utf8_cont b \<longleftrightarrow> 0x80 \<le> b \<and> b \<le> 0xBF"

fun utf8_decode_octets :: "nat list \<Rightarrow> pystr option" where
  "utf8_decode_octets [] = Some []"
| "utf8_decode_octets (b0 # bs) =
     (if b0 < 0x80 then map_option ((#) b0) (utf8_decode_octets bs)
      else if 0xC2 \<le> b0 \<and> b0 \<le> 0xDF then
        (case bs of
           b1 # r \<Rightarrow>
             if utf8_cont b1
             then map_option ((#) ((b0 - 0xC0) * 64 + (b1 - 0x80))) (utf8_decode_octets r)
             else None
         | _ \<Rightarrow> None)
      else if 0xE0 \<le> b0 \<and> b0 \<le> 0xEF then
        (case bs of
           b1 # b2 # r \<Rightarrow>
             if (if b0 = 0xE0 then 0xA0 \<le> b1 \<and> b1 \<le> 0xBF
                 else if b0 = 0xED then 0x80 \<le> b1 \<and> b1 \<le> 0x9F
                 else utf8_cont b1) \<and> utf8_cont b2
             then map_option
                    ((#) ((b0 - 0xE0) * 4096 + (b1 - 0x80) * 64 + (b2 - 0x80)))
                    (utf8_decode_octets r)
             else None
         | _ \<Rightarrow> None)
      else if 0xF0 \<le> b0 \<and> b0 \<le> 0xF4 then
        (case bs of
           b1 # b2 # b3 # r \<Rightarrow>
             if (if b0 = 0xF0 then 0x90 \<le> b1 \<and> b1 \<le> 0xBF
                 else if b0 = 0xF4 then 0x80 \<le> b1 \<and> b1 \<le> 0x8F
                 else utf8_cont b1) \<and> utf8_cont b2 \<and> utf8_cont b3
             then map_option
                    ((#) ((b0 - 0xF0) * 262144 + (b1 - 0x80) * 4096 + (b2 - 0x80) * 64
                          + (b3 - 0x80)))
                    (utf8_decode_octets r)
             else None
         | _ \<Rightarrow> None)
      else None)"

definition utf8_decode :: "bytes \<Rightarrow> pystr option" where
  "utf8_decode b = utf8_decode_octets (map unat b)"

subsection \<open>hashlib and hmac\<close>

text \<open>SHA-256 as \<open>hashlib.sha256\<close> computes it (FIPS 180-4), on a list of octets.\<close>

text \<open>
  The constants of the standard are the first 32 bits of the fractional parts of the
  square roots (initial hash value) and cube roots (round constants) of the first primes.
  \<open>iroot k n\<close> is the integer \<open>k\<close>-th root of \<open>n\<close>, found by bisection.
\<close>

function root_search :: "nat \<Rightarrow> nat \<Rightarrow> nat \<Rightarrow> nat \<Rightarrow> nat" where
  "root_search k n lo hi =
     (if hi \<le> lo + 1 then lo
      else let mid = (lo + hi) div 2
           in if mid ^ k \<le> n then root_search k n mid hi else root_search k n lo mid)"
  by pat_completeness auto
termination
  by (relation "measure (\<lambda>(k, n, lo, hi). hi - lo)") auto

definition iroot :: "nat \<Rightarrow> nat \<Rightarrow> nat" where
  "iroot k n = root_search k n 0 (n + 1)"

definition first_primes :: "nat list" where
  "first_primes =
     [2, 3, 5, 7, 11, 13, 17, 19, 23, 29, 31, 37, 41, 43, 47, 53, 59, 61, 67, 71, 73,
      79, 83, 89, 97, 101, 103, 107, 109, 113, 127, 131, 137, 139, 149, 151, 157, 163,
      167, 173, 179, 181, 191, 193, 197, 199, 211, 223, 227, 229, 233, 239, 241, 251,
      257, 263, 269, 271, 277, 281, 283, 293, 307, 311]"

definition sha256_h0 :: "32 word list" where
  "sha256_h0 = map (\<lambda>p. of_nat (iroot 2 (p * 2 ^ 64))) (take 8 first_primes)"

definition sha256_k :: "32 word list" where
  "sha256_k = map (\<lambda>p. of_nat (iroot 3 (p * 2 ^ 96))) first_primes"

fun be_words :: "bytes \<Rightarrow> 32 word list" where
  "be_words (a # b # c # d # r) =
     (push_bit 24 (ucast a) OR push_bit 16 (ucast b) OR push_bit 8 (ucast c) OR ucast d)
       # be_words r"
| "be_words r = []"

definition word_bytes :: "32 word \<Rightarrow> bytes" where
  "word_bytes w = [ucast (drop_bit 24 w), ucast (drop_bit 16 w), ucast (drop_bit 8 w), ucast w]"

definition be64 :: "nat \<Rightarrow> bytes" where
  "be64 n = map (\<lambda>i. of_nat (n div 256 ^ i)) [7, 6, 5, 4, 3, 2, 1, 0]"

definition sha256_pad :: "bytes \<Rightarrow> bytes" where
  "sha256_pad m =
     m @ [0x80] @ replicate ((119 - length m mod 64) mod 64) 0 @ be64 (8 * length m)"

fun sha256_schedule :: "nat \<Rightarrow> 32 word list \<Rightarrow> 32 word list" where
  "sha256_schedule 0 w = w"
| "sha256_schedule (Suc n) w =
     (let t = length w; x = w ! (t - 15); y = w ! (t - 2);
          s0 = word_rotr 7 x XOR word_rotr 18 x XOR drop_bit 3 x;
          s1 = word_rotr 17 y XOR word_rotr 19 y XOR drop_bit 10 y
      in sha256_schedule n (w @ [w ! (t - 16) + s0 + w ! (t - 7) + s1]))"

fun sha256_round :: "32 word list \<Rightarrow> 32 word \<times> 32 word \<Rightarrow> 32 word list" where
  "sha256_round [a, b, c, d, e, f, g, h] (k, w) =
     (let s1 = word_rotr 6 e XOR word_rotr 11 e XOR word_rotr 25 e;
          ch = (e AND f) XOR (NOT e AND g);
          t1 = h + s1 + ch + k + w;
          s0 = word_rotr 2 a XOR word_rotr 13 a XOR word_rotr 22 a;
          maj = (a AND b) XOR (a AND c) XOR (b AND c);
          t2 = s0 + maj
      in [t1 + t2, a, b, c, d + t1, e, f, g])"
| "sha256_round s kw = s"

definition sha256_compress :: "32 word list \<Rightarrow> bytes \<Rightarrow> 32 word list" where
  "sha256_compress hs block =
     map2 (+) hs (foldl sha256_round hs (zip sha256_k (sha256_schedule 48 (be_words block))))"

function blocks64 :: "bytes \<Rightarrow> bytes list" where
  "blocks64 m = (if m = [] then [] else take 64 m # blocks64 (drop 64 m))"
  by pat_completeness auto
termination
  by (relation "measure length") auto

definition sha256 :: "bytes \<Rightarrow> bytes" where
  "sha256 m =
     concat (map word_bytes (foldl sha256_compress sha256_h0 (blocks64 (sha256_pad m))))"

text \<open>\<open>hmac.new(key, msg, hashlib.sha256).digest()\<close> (RFC 2104, block size 64).\<close>

definition hmac_sha256 :: "bytes \<Rightarrow> bytes \<Rightarrow> bytes" where
  "hmac_sha256 key msg =
     (let k0 = (if length key > 64 then sha256 key else key);
          k = k0 @ replicate (64 - length k0) 0
      in sha256 (map (\<lambda>b. b XOR 0x5c) k @ sha256 (map (\<lambda>b. b XOR 0x36) k @ msg)))"

definition hex_char :: "nat \<Rightarrow> nat" where
  "hex_char n = (if n < 10 then 48 + n else 87 + n)"

text \<open>\<open>.hexdigest()\<close>: two lower-case hexadecimal digits for each octet.\<close>

definition hexdigest :: "bytes \<Rightarrow> pystr" where
  "hexdigest bs = concat (map (\<lambda>b. [hex_char (unat b div 16), hex_char (unat b mod 16)]) bs)"

text \<open>
  \<open>hmac.compare_digest(a, b)\<close> on two \<open>str\<close> arguments: it raises \<open>TypeError\<close> when
  either holds a non-ASCII character, and otherwise tells whether they are equal.
\<close>

definition compare_digest :: "pystr \<Rightarrow> pystr \<Rightarrow> exn + bool" where
  "compare_digest a b =
     (if list_all (\<lambda>c. c < 128) a \<and> list_all (\<lambda>c. c < 128) b then Inr (a = b)
      else Inl TypeError)"

subsection \<open>JSON values\<close>

text \<open>
  The values \<open>json.loads\<close> produces.  An object is an association list whose keys are
  distinct.  Of a float only whether it is zero matters below.
\<close>

datatype json = JNull | JBool bool | JInt int | JFloat real | JStr pystr
  | JList "json list" | JDict "(pystr \<times> json) list"

text \<open>Truth value of a Python value, as \<open>if x\<close> and \<open>not x\<close> take it.\<close>

fun truthy :: "json \<Rightarrow> bool" where
  "truthy JNull = False"
| "truthy (JBool b) = b"
| "truthy (JInt i) = (i \<noteq> 0)"
| "truthy (JFloat x) = (x \<noteq> 0)"
| "truthy (JStr s) = (s \<noteq> [])"
| "truthy (JList xs) = (xs \<noteq> [])"
| "truthy (JDict kvs) = (kvs \<noteq> [])"

text \<open>
  In the functions below \<open>None\<close> means that the Python expression raises (an
  \<open>AttributeError\<close> or \<open>TypeError\<close> on a value of the wrong type).  \<open>dict_get d key dflt\<close>
  is \<open>d.get(key, default)\<close>, which only a dict has.
\<close>

fun dict_get :: "json \<Rightarrow> pystr \<Rightarrow> json \<Rightarrow> json option" where
  "dict_get (JDict kvs) key dflt =
     Some (case map_of kvs key of Some v \<Rightarrow> v | None \<Rightarrow> dflt)"
| "dict_get d key dflt = None"

text \<open>\<open>len(x)\<close>.\<close>

fun py_len :: "json \<Rightarrow> nat option" where
  "py_len (JStr s) = Some (length s)"
| "py_len (JList xs) = Some (length xs)"
| "py_len (JDict kvs) = Some (length kvs)"
| "py_len x = None"

text \<open>The items of \<open>x[:n]\<close>, as a \<open>for\<close> loop visits them.\<close>

fun py_slice_items :: "nat \<Rightarrow> json \<Rightarrow> json list option" where
  "py_slice_items n (JList xs) = Some (take n xs)"
| "py_slice_items n (JStr s) = Some (map (\<lambda>c. JStr [c]) (take n s))"
| "py_slice_items n x = None"

text \<open>\<open>x[:n]\<close>.\<close>

fun py_slice :: "nat \<Rightarrow> json \<Rightarrow> json option" where
  "py_slice n (JStr s) = Some (JStr (take n s))"
| "py_slice n (JList xs) = Some (JList (take n xs))"
| "py_slice n x = None"

text \<open>\<open>str(n)\<close> for an integer.\<close>

function str_nat :: "nat \<Rightarrow> pystr" where
  "str_nat n = (if n < 10 then [48 + n] else str_nat (n div 10) @ [48 + n mod 10])"
  by pat_completeness auto
termination
  by (relation "measure id") auto

definition str_int :: "int \<Rightarrow> pystr" where
  "str_int i = (if i < 0 then 45 # str_nat (nat (- i)) else str_nat (nat i))"

text \<open>
  A value interpolated into an f-string.  The text that Python prints for a float, a
  list or a dict is the parameter \<open>repr\<close>.
\<close>

fun py_format :: "(json \<Rightarrow> pystr) \<Rightarrow> json \<Rightarrow> pystr" where
  "py_format repr (JStr s) = s"
| "py_format repr (JInt i) = str_int i"
| "py_format repr JNull = py_str ''None''"
| "py_format repr (JBool b) = (if b then py_str ''True'' else py_str ''False'')"
| "py_format repr x = repr x"

section \<open>config.py\<close>

record config =
  allowed_chat_ids :: "int list"
  github_webhook_secret :: pystr
  rate_limit_requests :: int
  rate_limit_window :: int
  notify_on_push :: bool
  notify_on_issues :: bool
  notify_on_pull_requests :: bool
  notify_on_releases :: bool

text \<open>
  \<open>Config.is_chat_allowed\<close>: \<open>if not self.allowed_chat_ids: return True\<close>, then
  \<open>return chat_id in self.allowed_chat_ids\<close>.
\<close>

definition is_chat_allowed :: "config \<Rightarrow> int \<Rightarrow> bool" where
  "is_chat_allowed cfg chat_id =
     (if allowed_chat_ids cfg = [] then True
      else chat_id \<in> set (allowed_chat_ids cfg))"

text \<open>
  \<open>Config._parse_chat_ids\<close>.  The comprehension converts the non-blank fields in
  order; a \<open>ValueError\<close> of any conversion abandons the whole list for \<open>[]\<close>.
\<close>

definition parse_chat_ids :: "(pystr \<Rightarrow> int option) \<Rightarrow> pystr \<Rightarrow> int list" where
  "parse_chat_ids to_int chat_ids_str =
     (if chat_ids_str = [] then []
      else (case those (map (\<lambda>chat_id. to_int (py_strip chat_id))
                          (filter (\<lambda>chat_id. py_strip chat_id \<noteq> [])
                             (py_split1 44 chat_ids_str))) of
              None \<Rightarrow> []
            | Some ids \<Rightarrow> ids))"

section \<open>utils.py\<close>

definition special_chars :: pystr where
  "special_chars = py_str ''_*[]()~`>#+-=|{}.!''"

text \<open>\<open>text.replace(old, new)\<close> where \<open>old\<close> is one character.\<close>

definition str_replace1 :: "nat \<Rightarrow> pystr \<Rightarrow> pystr \<Rightarrow> pystr" where
  "str_replace1 old new s = concat (map (\<lambda>c. if c = old then new else [c]) s)"

text \<open>
  \<open>escape_markdown\<close>: the loop over \<open>special_chars\<close> replaces one character at a time
  in the text produced so far; code point 92 is the backslash.
\<close>

definition escape_markdown :: "pystr \<Rightarrow> pystr" where
  "escape_markdown s =
     (if s = [] then []
      else foldl (\<lambda>s char. str_replace1 char [92, char] s) s special_chars)"

text \<open>
  \<open>escape_markdown\<close> as the formatters call it, on a value of any type: a false value
  gives the empty string, and \<open>text.replace\<close> exists on strings only.
\<close>

definition escape_markdown_any :: "json \<Rightarrow> pystr option" where
  "escape_markdown_any v =
     (if \<not> truthy v then Some []
      else case v of JStr s \<Rightarrow> Some (escape_markdown s) | _ \<Rightarrow> None)"

section \<open>telegram\_bot.py: the rate limiter\<close>

text \<open>
  \<open>self.rate_limits = defaultdict(list)\<close>: every chat id has a list of request times, the
  empty list until the chat is first seen, so the state is a total function.  Request
  times are the readings of \<open>time.time()\<close>; the reading \<open>now\<close> is passed in, and times
  are taken as exact real numbers.
\<close>

type_synonym rate_limits = "int \<Rightarrow> real list"

definition rate_limits_init :: rate_limits where
  "rate_limits_init = (\<lambda>chat_id. [])"

text \<open>
  \<open>TelegramBot.is_rate_limited\<close> returns the verdict (\<open>True\<close>: the chat is throttled)
  together with the updated state.
\<close>

definition is_rate_limited ::
  "config \<Rightarrow> real \<Rightarrow> int \<Rightarrow> rate_limits \<Rightarrow> bool \<times> rate_limits" where
  "is_rate_limited cfg now chat_id rl =
     (let window_start = now - real_of_int (rate_limit_window cfg);
          rl1 = rl(chat_id := filter (\<lambda>req_time. req_time > window_start) (rl chat_id))
      in if int (length (rl1 chat_id)) \<ge> rate_limit_requests cfg then (True, rl1)
         else (False, rl1(chat_id := rl1 chat_id @ [now])))"

text \<open>A sequence of checks, each for a chat at a clock reading, threading the state.\<close>

fun rate_limit_run ::
  "config \<Rightarrow> (int \<times> real) list \<Rightarrow> rate_limits \<Rightarrow> bool list \<times> rate_limits" where
  "rate_limit_run cfg [] rl = ([], rl)"
| "rate_limit_run cfg ((chat_id, now) # calls) rl =
     (case is_rate_limited cfg now chat_id rl of (limited, rl') \<Rightarrow>
        (case rate_limit_run cfg calls rl' of (ls, rl'') \<Rightarrow> (limited # ls, rl'')))"

text \<open>The request times of a list that a check at \<open>now\<close> keeps.\<close>

definition pruned :: "config \<Rightarrow> real \<Rightarrow> real list \<Rightarrow> real list" where
  "pruned cfg now xs = filter (\<lambda>t. now - real_of_int (rate_limit_window cfg) < t) xs"


section \<open>telegram\_bot.py: permissions and command routing\<close>

text \<open>
  An update as the handlers read it: \<open>update.message\<close> (absent, or a message whose
  \<open>text\<close>, here \<open>msg_text\<close>, may be absent) and the id of \<open>update.effective_chat\<close>.
\<close>

datatype message = Message (msg_text: "pystr option")

record update =
  message :: "message option"
  effective_chat :: "int option"

definition unauthorized_text :: pystr where
  "unauthorized_text = [0x274C] @ py_str '' You are not authorized to use this bot.''"

definition rate_limit_text :: pystr where
  "rate_limit_text =
     [0x23F0] @ py_str '' Rate limit exceeded. Please wait before making more requests.''"

definition unknown_command_text :: pystr where
  "unknown_command_text =
     [0x274C] @ py_str '' Unknown command. Use /help to see available commands.''"

text \<open>
  \<open>TelegramBot.check_permissions\<close>: the verdict, the replies sent, and the rate-limit
  state, which only a chat that passed the allow-list touches.
\<close>

definition check_permissions ::
  "config \<Rightarrow> real \<Rightarrow> update \<Rightarrow> rate_limits \<Rightarrow> (bool \<times> pystr list) \<times> rate_limits" where
  "check_permissions cfg now upd rl =
     (case effective_chat upd of
        None \<Rightarrow> ((False, []), rl)
      | Some chat_id \<Rightarrow>
          if message upd = None then ((False, []), rl)
          else if \<not> is_chat_allowed cfg chat_id then ((False, [unauthorized_text]), rl)
          else (case is_rate_limited cfg now chat_id rl of
                  (True, rl') \<Rightarrow> ((False, [rate_limit_text]), rl')
                | (False, rl') \<Rightarrow> ((True, []), rl')))"

datatype command = Start | Help | Profile | Repos | Repo | Commits | Issues | Search | Status

text \<open>The \<open>if\<close>/\<open>elif\<close> chain of \<open>handle_message\<close>; \<open>None\<close> is its \<open>else\<close> branch.\<close>

definition route_command :: "pystr \<Rightarrow> command option" where
  "route_command message_text =
     (if startswith message_text (py_str ''/start'') then Some Start
      else if startswith message_text (py_str ''/help'') then Some Help
      else if startswith message_text (py_str ''/profile'') then Some Profile
      else if startswith message_text (py_str ''/repos'') then Some Repos
      else if startswith message_text (py_str ''/repo'') then Some Repo
      else if startswith message_text (py_str ''/commits'') then Some Commits
      else if startswith message_text (py_str ''/issues'') then Some Issues
      else if startswith message_text (py_str ''/search'') then Some Search
      else if startswith message_text (py_str ''/status'') then Some Status
      else None)"

text \<open>
  What \<open>handle_message\<close> does with an update.  Every command handler starts with
  \<open>if not await self.check_permissions(update): return\<close>; \<open>RunHandler c\<close> says that the
  body of the handler of \<open>c\<close> runs after that gate.
\<close>

datatype outcome = Ignored | Denied "pystr list" | RunHandler command | Reply pystr

definition handle_message ::
  "config \<Rightarrow> real \<Rightarrow> update \<Rightarrow> rate_limits \<Rightarrow> outcome \<times> rate_limits" where
  "handle_message cfg now upd rl =
     (case message upd of
        None \<Rightarrow> (Ignored, rl)
      | Some m \<Rightarrow>
          (case msg_text m of
             None \<Rightarrow> (Ignored, rl)
           | Some message_text \<Rightarrow>
               if message_text = [] then (Ignored, rl)
               else (case route_command message_text of
                       Some c \<Rightarrow>
                         (case check_permissions cfg now upd rl of
                            ((True, replies), rl') \<Rightarrow> (RunHandler c, rl')
                          | ((False, replies), rl') \<Rightarrow> (Denied replies, rl'))
                     | None \<Rightarrow>
                         (case check_permissions cfg now upd rl of
                            ((True, replies), rl') \<Rightarrow> (Reply unknown_command_text, rl')
                          | ((False, replies), rl') \<Rightarrow> (Denied replies, rl')))))"

text \<open>
  The routing rule in the words of the specification: prefix match on the first
  whitespace-delimited token, the first item of \<open>message_text.split()\<close>.
\<close>

definition first_token :: "pystr \<Rightarrow> pystr option" where
  "first_token s =
     (case dropWhile py_isspace s of
        [] \<Rightarrow> None
      | c # cs \<Rightarrow> Some (takeWhile (\<lambda>x. \<not> py_isspace x) (c # cs)))"

definition route_first_token :: "pystr \<Rightarrow> command option" where
  "route_first_token message_text =
     (case first_token message_text of None \<Rightarrow> None | Some tok \<Rightarrow> route_command tok)"

section \<open>webhook\_handler.py\<close>

text \<open>
  \<open>WebhookHandler.verify_signature\<close>.  The header is absent (\<open>None\<close>) or a string; the
  result is the returned verdict or the exception that escapes.
\<close>

definition verify_signature :: "config \<Rightarrow> bytes \<Rightarrow> pystr option \<Rightarrow> exn + bool" where
  "verify_signature cfg payload_body signature_header =
     (if github_webhook_secret cfg = [] then Inr True
      else case signature_header of
        None \<Rightarrow> Inr False
      | Some header \<Rightarrow>
          if header = [] then Inr False
          else if \<not> startswith header (py_str ''sha256='') then Inr False
          else (case utf8_encode (github_webhook_secret cfg) of
                  None \<Rightarrow> Inl UnicodeEncodeError
                | Some key \<Rightarrow>
                    let expected_signature = hexdigest (hmac_sha256 key payload_body);
                        signature = drop 7 header
                    in compare_digest expected_signature signature))"

text \<open>
  The body of the \<open>for commit in commits[:3]\<close> loop of \<open>format_push_event\<close>: the two
  lines appended for one commit.
\<close>

definition format_commit :: "(json \<Rightarrow> pystr) \<Rightarrow> json \<Rightarrow> pystr option" where
  "format_commit repr commit = do {
     commit_message \<leftarrow> dict_get commit (py_str ''message'') (JStr (py_str ''No message''));
     author_d \<leftarrow> dict_get commit (py_str ''author'') (JDict []);
     author \<leftarrow> dict_get author_d (py_str ''name'') (JStr (py_str ''Unknown''));
     commit_id \<leftarrow> dict_get commit (py_str ''id'') (JStr []);
     sha \<leftarrow> py_slice 7 commit_id;
     url \<leftarrow> dict_get commit (py_str ''url'') (JStr []);
     e_message \<leftarrow> escape_markdown_any commit_message;
     e_author \<leftarrow> escape_markdown_any author;
     Some ([0x1F538] @ py_str '' **'' @ e_message @ py_str ''**'' @ [10]
           @ [0x1F464] @ py_str '' '' @ e_author @ py_str '' '' @ [0x2022] @ py_str '' [`''
           @ py_format repr sha @ py_str ''`]('' @ py_format repr url @ py_str '')''
           @ [10, 10])
   }"

text \<open>
  \<open>WebhookHandler.format_push_event\<close>.  The outer \<open>None\<close> of the body is an exception,
  which the function's \<open>except Exception\<close> turns into the result \<open>None\<close>; the inner
  option is the returned value.
\<close>

definition format_push_event_body :: "(json \<Rightarrow> pystr) \<Rightarrow> json \<Rightarrow> pystr option option" where
  "format_push_event_body repr payload = do {
     repository \<leftarrow> dict_get payload (py_str ''repository'') (JDict []);
     repo_name \<leftarrow> dict_get repository (py_str ''full_name'') (JStr (py_str ''Unknown''));
     ref \<leftarrow> dict_get payload (py_str ''ref'') (JStr []);
     branch \<leftarrow> (case ref of
                  JStr s \<Rightarrow> Some (if startswith s (py_str ''refs/heads/'')
                                  then JStr (last (py_split1 47 s)) else ref)
                | _ \<Rightarrow> None);
     commits \<leftarrow> dict_get payload (py_str ''commits'') (JList []);
     pusher_d \<leftarrow> dict_get payload (py_str ''pusher'') (JDict []);
     pusher \<leftarrow> dict_get pusher_d (py_str ''name'') (JStr (py_str ''Unknown''));
     if \<not> truthy commits then Some None
     else do {
       e_repo \<leftarrow> escape_markdown_any repo_name;
       e_branch \<leftarrow> escape_markdown_any branch;
       e_pusher \<leftarrow> escape_markdown_any pusher;
       n \<leftarrow> py_len commits;
       shown \<leftarrow> py_slice_items 3 commits;
       commit_lines \<leftarrow> those (map (format_commit repr) shown);
       repo_url \<leftarrow> dict_get repository (py_str ''html_url'') (JStr []);
       Some (Some
         ([0x1F680] @ py_str '' **Push to '' @ e_repo @ py_str ''**'' @ [10, 10]
          @ [0x1F33F] @ py_str '' **Branch:** '' @ e_branch @ [10]
          @ [0x1F464] @ py_str '' **Pusher:** '' @ e_pusher @ [10]
          @ [0x1F4DD] @ py_str '' **Commits:** '' @ str_nat n @ [10, 10]
          @ concat commit_lines
          @ (if n > 3 then py_str ''... and '' @ str_nat (n - 3) @ py_str '' more commits''
                           @ [10, 10]
             else [])
          @ (if truthy repo_url
             then [0x1F517] @ py_str '' [View Repository]('' @ py_format repr repo_url
                  @ py_str '')''
             else [])))
     }
   }"

definition format_push_event :: "(json \<Rightarrow> pystr) \<Rightarrow> json \<Rightarrow> pystr option" where
  "format_push_event repr payload =
     (case format_push_event_body repr payload of None \<Rightarrow> None | Some r \<Rightarrow> r)"

text \<open>
  \<open>{...}.get(action, default)\<close> on a dict with string keys: a list or a dict as key is
  unhashable and raises.
\<close>

fun action_emoji :: "(pystr \<times> pystr) list \<Rightarrow> json \<Rightarrow> pystr \<Rightarrow> pystr option" where
  "action_emoji table (JStr s) dflt =
     Some (case map_of table s of Some e \<Rightarrow> e | None \<Rightarrow> dflt)"
| "action_emoji table (JList xs) dflt = None"
| "action_emoji table (JDict kvs) dflt = None"
| "action_emoji table x dflt = Some dflt"

definition format_issues_event_body :: "(json \<Rightarrow> pystr) \<Rightarrow> json \<Rightarrow> pystr option option" where
  "format_issues_event_body repr payload = do {
     action \<leftarrow> dict_get payload (py_str ''action'') (JStr (py_str ''unknown''));
     issue \<leftarrow> dict_get payload (py_str ''issue'') (JDict []);
     repository \<leftarrow> dict_get payload (py_str ''repository'') (JDict []);
     repo_name \<leftarrow> dict_get repository (py_str ''full_name'') (JStr (py_str ''Unknown''));
     issue_title \<leftarrow> dict_get issue (py_str ''title'') (JStr (py_str ''No title''));
     issue_number \<leftarrow> dict_get issue (py_str ''number'') (JInt 0);
     issue_url \<leftarrow> dict_get issue (py_str ''html_url'') (JStr []);
     user_d \<leftarrow> dict_get issue (py_str ''user'') (JDict []);
     user \<leftarrow> dict_get user_d (py_str ''login'') (JStr (py_str ''Unknown''));
     emoji \<leftarrow> action_emoji
                [(py_str ''opened'', [0x1F195]), (py_str ''closed'', [0x2705]),
                 (py_str ''reopened'', [0x1F504]), (py_str ''edited'', [0x270F, 0xFE0F])]
                action [0x1F4CB];
     e_repo \<leftarrow> escape_markdown_any repo_name;
     e_title \<leftarrow> escape_markdown_any issue_title;
     e_user \<leftarrow> escape_markdown_any user;
     Some (Some
       (emoji @ py_str '' **Issue '' @ py_format repr action @ py_str '' in '' @ e_repo
        @ py_str ''**'' @ [10, 10]
        @ [0x1F41B] @ py_str '' **#'' @ py_format repr issue_number @ py_str '': '' @ e_title
        @ py_str ''**'' @ [10]
        @ [0x1F464] @ py_str '' **By:** '' @ e_user @ [10]
        @ (if truthy issue_url
           then [0x1F517] @ py_str '' [View Issue]('' @ py_format repr issue_url @ py_str '')''
           else [])))
   }"

definition format_issues_event :: "(json \<Rightarrow> pystr) \<Rightarrow> json \<Rightarrow> pystr option" where
  "format_issues_event repr payload =
     (case format_issues_event_body repr payload of None \<Rightarrow> None | Some r \<Rightarrow> r)"

definition format_pull_request_event_body ::
  "(json \<Rightarrow> pystr) \<Rightarrow> json \<Rightarrow> pystr option option" where
  "format_pull_request_event_body repr payload = do {
     action \<leftarrow> dict_get payload (py_str ''action'') (JStr (py_str ''unknown''));
     pull_request \<leftarrow> dict_get payload (py_str ''pull_request'') (JDict []);
     repository \<leftarrow> dict_get payload (py_str ''repository'') (JDict []);
     repo_name \<leftarrow> dict_get repository (py_str ''full_name'') (JStr (py_str ''Unknown''));
     pr_title \<leftarrow> dict_get pull_request (py_str ''title'') (JStr (py_str ''No title''));
     pr_number \<leftarrow> dict_get pull_request (py_str ''number'') (JInt 0);
     pr_url \<leftarrow> dict_get pull_request (py_str ''html_url'') (JStr []);
     user_d \<leftarrow> dict_get pull_request (py_str ''user'') (JDict []);
     user \<leftarrow> dict_get user_d (py_str ''login'') (JStr (py_str ''Unknown''));
     emoji \<leftarrow> action_emoji
                [(py_str ''opened'', [0x1F195]), (py_str ''closed'', [0x2705]),
                 (py_str ''merged'', [0x1F389]), (py_str ''reopened'', [0x1F504]),
                 (py_str ''edited'', [0x270F, 0xFE0F])]
                action [0x1F4CB];
     e_repo \<leftarrow> escape_markdown_any repo_name;
     e_title \<leftarrow> escape_markdown_any pr_title;
     e_user \<leftarrow> escape_markdown_any user;
     Some (Some
       (emoji @ py_str '' **Pull Request '' @ py_format repr action @ py_str '' in '' @ e_repo
        @ py_str ''**'' @ [10, 10]
        @ [0x1F500] @ py_str '' **#'' @ py_format repr pr_number @ py_str '': '' @ e_title
        @ py_str ''**'' @ [10]
        @ [0x1F464] @ py_str '' **By:** '' @ e_user @ [10]
        @ (if truthy pr_url
           then [0x1F517] @ py_str '' [View Pull Request]('' @ py_format repr pr_url
                @ py_str '')''
           else [])))
   }"

definition format_pull_request_event :: "(json \<Rightarrow> pystr) \<Rightarrow> json \<Rightarrow> pystr option" where
  "format_pull_request_event repr payload =
     (case format_pull_request_event_body repr payload of None \<Rightarrow> None | Some r \<Rightarrow> r)"

definition format_release_event_body ::
  "(json \<Rightarrow> pystr) \<Rightarrow> json \<Rightarrow> pystr option option" where
  "format_release_event_body repr payload = do {
     action \<leftarrow> dict_get payload (py_str ''action'') (JStr (py_str ''unknown''));
     release \<leftarrow> dict_get payload (py_str ''release'') (JDict []);
     repository \<leftarrow> dict_get payload (py_str ''repository'') (JDict []);
     if action \<noteq> JStr (py_str ''published'') then Some None
     else do {
       repo_name \<leftarrow> dict_get repository (py_str ''full_name'') (JStr (py_str ''Unknown''));
       release_name \<leftarrow> dict_get release (py_str ''name'') (JStr (py_str ''No name''));
       tag_name \<leftarrow> dict_get release (py_str ''tag_name'') (JStr (py_str ''Unknown''));
       release_url \<leftarrow> dict_get release (py_str ''html_url'') (JStr []);
       author_d \<leftarrow> dict_get release (py_str ''author'') (JDict []);
       author \<leftarrow> dict_get author_d (py_str ''login'') (JStr (py_str ''Unknown''));
       e_repo \<leftarrow> escape_markdown_any repo_name;
       e_name \<leftarrow> escape_markdown_any release_name;
       e_tag \<leftarrow> escape_markdown_any tag_name;
       e_author \<leftarrow> escape_markdown_any author;
       Some (Some
         ([0x1F389] @ py_str '' **New Release in '' @ e_repo @ py_str ''**'' @ [10, 10]
          @ [0x1F3F7, 0xFE0F] @ py_str '' **'' @ e_name @ py_str ''** ('' @ e_tag
          @ py_str '')'' @ [10]
          @ [0x1F464] @ py_str '' **By:** '' @ e_author @ [10]
          @ (if truthy release_url
             then [0x1F517] @ py_str '' [View Release]('' @ py_format repr release_url
                  @ py_str '')''
             else [])))
     }
   }"

definition format_release_event :: "(json \<Rightarrow> pystr) \<Rightarrow> json \<Rightarrow> pystr option" where
  "format_release_event repr payload =
     (case format_release_event_body repr payload of None \<Rightarrow> None | Some r \<Rightarrow> r)"

text \<open>
  \<open>format_ping_event\<close> has no handler of its own: \<open>None\<close> is the exception that
  reaches \<open>handle_github_event\<close>.
\<close>

definition format_ping_event :: "json \<Rightarrow> pystr option" where
  "format_ping_event payload = do {
     repository \<leftarrow> dict_get payload (py_str ''repository'') (JDict []);
     repo_name \<leftarrow> dict_get repository (py_str ''full_name'') (JStr (py_str ''Unknown''));
     e_repo \<leftarrow> escape_markdown_any repo_name;
     Some ([0x1F3D3] @ py_str '' **Webhook configured for '' @ e_repo @ py_str ''**''
           @ [10, 10] @ py_str ''Webhook is working correctly!'')
   }"

text \<open>
  \<open>handle_github_event\<close>: the result is the message handed to
  \<open>send_notification_async\<close> for the allowed chat ids, if any.  Every exception is
  caught and logged, so nothing is sent then.
\<close>

definition handle_github_event ::
  "(json \<Rightarrow> pystr) \<Rightarrow> config \<Rightarrow> pystr option \<Rightarrow> json \<Rightarrow> pystr option" where
  "handle_github_event repr cfg event_type payload =
     (let message =
            (if event_type = Some (py_str ''push'') \<and> notify_on_push cfg
               then format_push_event repr payload
             else if event_type = Some (py_str ''issues'') \<and> notify_on_issues cfg
               then format_issues_event repr payload
             else if event_type = Some (py_str ''pull_request'') \<and> notify_on_pull_requests cfg
               then format_pull_request_event repr payload
             else if event_type = Some (py_str ''release'') \<and> notify_on_releases cfg
               then format_release_event repr payload
             else if event_type = Some (py_str ''ping'')
               then format_ping_event payload
             else None)
      in case message of
           None \<Rightarrow> None
         | Some m \<Rightarrow> if m \<noteq> [] \<and> allowed_chat_ids cfg \<noteq> [] then Some m else None)"

text \<open>
  A request to \<open>POST /webhook\<close>: the raw body and the two headers read by
  \<open>process_webhook\<close>.  A response is the JSON object of one member and the status code.
\<close>

record request =
  get_data :: bytes
  x_hub_signature_256 :: "pystr option"
  x_github_event :: "pystr option"

type_synonym response = "(pystr \<times> pystr) \<times> nat"

text \<open>
  \<open>WebhookHandler.process_webhook\<close>, with \<open>json.loads\<close> as the parameter \<open>json_loads\<close>
  (\<open>Inl\<close> the exception it raises).  The second component of the result is the
  notification that was dispatched.
\<close>

definition process_webhook ::
  "(pystr \<Rightarrow> exn + json) \<Rightarrow> (json \<Rightarrow> pystr) \<Rightarrow> config \<Rightarrow> request
     \<Rightarrow> response \<times> pystr option" where
  "process_webhook json_loads repr cfg req =
     (case verify_signature cfg (get_data req) (x_hub_signature_256 req) of
        Inl e \<Rightarrow> (((py_str ''error'', py_str ''Internal server error''), 500), None)
      | Inr False \<Rightarrow> (((py_str ''error'', py_str ''Invalid signature''), 403), None)
      | Inr True \<Rightarrow>
          (case utf8_decode (get_data req) of
             None \<Rightarrow> (((py_str ''error'', py_str ''Internal server error''), 500), None)
           | Some body_text \<Rightarrow>
               (case json_loads body_text of
                  Inl JSONDecodeError \<Rightarrow>
                    (((py_str ''error'', py_str ''Invalid JSON''), 400), None)
                | Inl e \<Rightarrow>
                    (((py_str ''error'', py_str ''Internal server error''), 500), None)
                | Inr payload \<Rightarrow>
                    (((py_str ''status'', py_str ''success''), 200),
                     handle_github_event repr cfg (x_github_event req) payload))))"

section \<open>Well-typed push payloads\<close>

text \<open>
  The fields of a push payload that \<open>format_push_event\<close> reads, when they hold strings:
  \<open>commit_fields\<close> and \<open>push_fields\<close> say that the lookups of the formatter (with its
  defaults) yield the given strings, and \<open>render_commit\<close> is the text of one commit.
\<close>

record commit_info =
  c_message :: pystr
  c_author :: pystr
  c_id :: pystr
  c_url :: pystr

definition commit_fields :: "json \<Rightarrow> commit_info \<Rightarrow> bool" where
  "commit_fields commit i \<longleftrightarrow>
     dict_get commit (py_str ''message'') (JStr (py_str ''No message''))
       = Some (JStr (c_message i)) \<and>
     (case dict_get commit (py_str ''author'') (JDict []) of
        Some author_d \<Rightarrow>
          dict_get author_d (py_str ''name'') (JStr (py_str ''Unknown''))
            = Some (JStr (c_author i))
      | None \<Rightarrow> False) \<and>
     dict_get commit (py_str ''id'') (JStr []) = Some (JStr (c_id i)) \<and>
     dict_get commit (py_str ''url'') (JStr []) = Some (JStr (c_url i))"

definition push_fields ::
  "json \<Rightarrow> pystr \<Rightarrow> pystr \<Rightarrow> pystr \<Rightarrow> pystr \<Rightarrow> json list \<Rightarrow> bool" where
  "push_fields payload repo_name repo_url ref pusher commits \<longleftrightarrow>
     (case dict_get payload (py_str ''repository'') (JDict []) of
        Some repository \<Rightarrow>
          dict_get repository (py_str ''full_name'') (JStr (py_str ''Unknown''))
            = Some (JStr repo_name) \<and>
          dict_get repository (py_str ''html_url'') (JStr []) = Some (JStr repo_url)
      | None \<Rightarrow> False) \<and>
     dict_get payload (py_str ''ref'') (JStr []) = Some (JStr ref) \<and>
     dict_get payload (py_str ''commits'') (JList []) = Some (JList commits) \<and>
     (case dict_get payload (py_str ''pusher'') (JDict []) of
        Some pusher_d \<Rightarrow>
          dict_get pusher_d (py_str ''name'') (JStr (py_str ''Unknown'')) = Some (JStr pusher)
      | None \<Rightarrow> False)"

definition render_commit :: "commit_info \<Rightarrow> pystr" where
  "render_commit i =
     [0x1F538] @ py_str '' **'' @ escape_markdown (c_message i) @ py_str ''**'' @ [10]
     @ [0x1F464] @ py_str '' '' @ escape_markdown (c_author i) @ py_str '' '' @ [0x2022]
     @ py_str '' [`'' @ take 7 (c_id i) @ py_str ''`]('' @ c_url i @ py_str '')'' @ [10, 10]"

section \<open>Example inputs\<close>

definition example_config :: config where
  "example_config =
     \<lparr> allowed_chat_ids = [11, 42], github_webhook_secret = py_str ''s'',
       rate_limit_requests = 2, rate_limit_window = 60,
       notify_on_push = True, notify_on_issues = True,
       notify_on_pull_requests = True, notify_on_releases = True \<rparr>"

text \<open>A push of five commits to \<open>refs/heads/main\<close>.\<close>

definition example_commit :: "nat \<Rightarrow> json" where
  "example_commit d =
     JDict [(py_str ''id'', JStr (d # py_str ''f00ba47c0ffee'')),
            (py_str ''message'', JStr (py_str ''Fix bug #'' @ [d])),
            (py_str ''url'', JStr (py_str ''https://example.org/c/'' @ [d])),
            (py_str ''author'', JDict [(py_str ''name'', JStr (py_str ''Ann_B''))])]"

definition example_push :: json where
  "example_push =
     JDict [(py_str ''ref'', JStr (py_str ''refs/heads/main'')),
            (py_str ''repository'',
               JDict [(py_str ''full_name'', JStr (py_str ''octo/hello-world'')),
                      (py_str ''html_url'', JStr (py_str ''https://example.org/r''))]),
            (py_str ''pusher'', JDict [(py_str ''name'', JStr (py_str ''octo.cat''))]),
            (py_str ''commits'', JList (map example_commit [49, 50, 51, 52, 53]))]"

definition example_commit_info :: "nat \<Rightarrow> commit_info" where
  "example_commit_info d =
     \<lparr>c_message = py_str ''Fix bug #'' @ [d], c_author = py_str ''Ann_B'',
      c_id = d # py_str ''f00ba47c0ffee'', c_url = py_str ''https://example.org/c/'' @ [d]\<rparr>"

text \<open>The message for \<open>example_push\<close>.\<close>

definition example_push_message :: pystr where
  "example_push_message =
     [0x1F680]
     @ py_str '' **Push to octo/hello''
     @ [92]
     @ py_str ''-world**''
     @ [10, 10, 0x1F33F]
     @ py_str '' **Branch:** main''
     @ [10, 0x1F464]
     @ py_str '' **Pusher:** octo''
     @ [92]
     @ py_str ''.cat''
     @ [10, 0x1F4DD]
     @ py_str '' **Commits:** 5''
     @ [10, 10, 0x1F538]
     @ py_str '' **Fix bug ''
     @ [92]
     @ py_str ''#1**''
     @ [10, 0x1F464]
     @ py_str '' Ann''
     @ [92]
     @ py_str ''_B ''
     @ [0x2022]
     @ py_str '' [`1f00ba4`](https://example.org/c/1)''
     @ [10, 10, 0x1F538]
     @ py_str '' **Fix bug ''
     @ [92]
     @ py_str ''#2**''
     @ [10, 0x1F464]
     @ py_str '' Ann''
     @ [92]
     @ py_str ''_B ''
     @ [0x2022]
     @ py_str '' [`2f00ba4`](https://example.org/c/2)''
     @ [10, 10, 0x1F538]
     @ py_str '' **Fix bug ''
     @ [92]
     @ py_str ''#3**''
     @ [10, 0x1F464]
     @ py_str '' Ann''
     @ [92]
     @ py_str ''_B ''
     @ [0x2022]
     @ py_str '' [`3f00ba4`](https://example.org/c/3)''
     @ [10, 10]
     @ py_str ''... and 2 more commits''
     @ [10, 10, 0x1F517]
     @ py_str '' [View Repository](https://example.org/r)''"

section \<open>Authorization gate\<close>

text \<open>
  C7.  With an empty allow-list every chat id is allowed; with a non-empty allow-list a
  chat id is allowed exactly when it is a member of the list.  The check is a function of
  the configuration and the chat id alone and returns only the verdict, so it changes
  no state.
\<close>

theorem is_chat_allowed_spec:
  "(allowed_chat_ids cfg = [] \<longrightarrow> is_chat_allowed cfg chat_id) \<and>
   (allowed_chat_ids cfg \<noteq> [] \<longrightarrow>
      (is_chat_allowed cfg chat_id \<longleftrightarrow> chat_id \<in> set (allowed_chat_ids cfg)))"
  by (simp add: is_chat_allowed_def)

theorem is_chat_allowed_spec_witness:
  "is_chat_allowed (example_config\<lparr>allowed_chat_ids := []\<rparr>) 7 \<and>
   is_chat_allowed example_config 42 \<and> \<not> is_chat_allowed example_config 7"
  using is_chat_allowed_spec [of "example_config\<lparr>allowed_chat_ids := []\<rparr>" 7]
    is_chat_allowed_spec [of example_config 42]
    is_chat_allowed_spec [of example_config 7]
  by (simp add: example_config_def)

section \<open>Rate limiter\<close>

lemma is_rate_limited_unfold:
  "is_rate_limited cfg now c rl =
     (if int (length (pruned cfg now (rl c))) < rate_limit_requests cfg
      then (False, rl(c := pruned cfg now (rl c) @ [now]))
      else (True, rl(c := pruned cfg now (rl c))))"
  by (simp add: is_rate_limited_def pruned_def Let_def)

lemma pruned_append: "pruned cfg now (xs @ ys) = pruned cfg now xs @ pruned cfg now ys"
  by (simp add: pruned_def)

lemma pruned_id:
  "\<forall>t\<in>set xs. now - real_of_int (rate_limit_window cfg) < t \<Longrightarrow> pruned cfg now xs = xs"
  by (simp add: pruned_def)

text \<open>
  While the checks of a burst are admitted and lie within the window of each other, the
  times they append stay at the end of the stored list.
\<close>

lemma burst_keeps:
  "rate_limit_run cfg (map (Pair c) ts) rl = (rs, rl1) \<Longrightarrow> \<forall>r\<in>set rs. \<not> r \<Longrightarrow>
   rl c = pre @ dn \<Longrightarrow>
   \<forall>t\<in>set dn \<union> set ts. \<forall>t'\<in>set ts. t' - real_of_int (rate_limit_window cfg) < t \<Longrightarrow>
   \<exists>pre'. rl1 c = pre' @ dn @ ts"
proof (induction ts arbitrary: rl rs rl1 pre dn)
  case Nil
  then show ?case by auto
next
  case (Cons t ts)
  obtain l rl' where step: "is_rate_limited cfg t c rl = (l, rl')"
    by (cases "is_rate_limited cfg t c rl")
  obtain ls rl'' where rest: "rate_limit_run cfg (map (Pair c) ts) rl' = (ls, rl'')"
    by (cases "rate_limit_run cfg (map (Pair c) ts) rl'")
  from Cons.prems(1) step rest have rs: "rs = l # ls" and rl1: "rl1 = rl''" by auto
  from rs Cons.prems(2) have nl: "\<not> l" and nls: "\<forall>r\<in>set ls. \<not> r" by auto
  have keep: "pruned cfg t dn = dn" using Cons.prems(4) by (intro pruned_id) auto
  from step nl have "rl' c = pruned cfg t (rl c) @ [t]"
    by (auto simp: is_rate_limited_unfold split: if_splits)
  then have rl'c: "rl' c = pruned cfg t pre @ (dn @ [t])"
    using Cons.prems(3) keep by (simp add: pruned_append)
  have "\<forall>x\<in>set (dn @ [t]) \<union> set ts.
          \<forall>t'\<in>set ts. t' - real_of_int (rate_limit_window cfg) < x"
    using Cons.prems(4) by auto
  from Cons.IH[OF rest nls rl'c this] rl1 show ?case by auto
qed

lemma burst_then_limited:
  assumes "rate_limit_run cfg (map (Pair c) ts) rl = (rs, rl1)" "\<forall>r\<in>set rs. \<not> r"
    "int (length ts) \<ge> rate_limit_requests cfg"
    "\<forall>t\<in>set ts. \<forall>t'\<in>set (ts @ [now]). t' - real_of_int (rate_limit_window cfg) < t"
  shows "fst (is_rate_limited cfg now c rl1)"
proof -
  have "\<exists>pre'. rl1 c = pre' @ [] @ ts"
    by (rule burst_keeps[OF assms(1,2), of "rl c" "[]"]) (use assms(4) in auto)
  then obtain pre' where "rl1 c = pre' @ ts" by auto
  moreover have "pruned cfg now ts = ts" using assms(4) by (intro pruned_id) auto
  ultimately have "length (pruned cfg now (rl1 c)) \<ge> length ts" by (simp add: pruned_append)
  with assms(3) show ?thesis by (simp add: is_rate_limited_unfold)
qed

lemma snd_run_Cons:
  "snd (rate_limit_run cfg ((c, t) # calls) rl)
     = snd (rate_limit_run cfg calls (snd (is_rate_limited cfg t c rl)))"
  by (simp split: prod.splits)

text \<open>A run stores no times but the ones it was called with.\<close>

lemma set_after_call:
  "set (snd (is_rate_limited cfg now c rl) c') \<subseteq> set (rl c') \<union> (if c' = c then {now} else {})"
  by (auto simp: is_rate_limited_unfold pruned_def)

lemma set_after_run:
  "x \<in> set (snd (rate_limit_run cfg calls rl) c') \<Longrightarrow> x \<in> set (rl c') \<or> (c', x) \<in> set calls"
proof (induction calls arbitrary: rl)
  case Nil then show ?case by simp
next
  case (Cons p calls)
  obtain c t where p: "p = (c, t)" by (cases p)
  from Cons.prems
  have "x \<in> set (snd (rate_limit_run cfg calls (snd (is_rate_limited cfg t c rl))) c')"
    unfolding p snd_run_Cons .
  from Cons.IH[OF this] show ?case using set_after_call[of cfg t c rl c']
    by (auto simp: p split: if_splits)
qed

lemma recovery:
  assumes "0 < rate_limit_requests cfg"
    and "\<forall>t\<in>set (rl c). t + real_of_int (rate_limit_window cfg) \<le> later"
  shows "\<not> fst (is_rate_limited cfg later c rl)"
proof -
  have "pruned cfg later (rl c) = []"
    using assms(2) by (auto simp: pruned_def filter_empty_conv)
  with assms(1) show ?thesis by (simp add: is_rate_limited_unfold)
qed

text \<open>The bound on the stored lists is kept by one check, hence by every run.\<close>

lemma bound_step:
  "int (length (rl c')) \<le> max 0 (rate_limit_requests cfg) \<Longrightarrow>
   int (length (snd (is_rate_limited cfg now c rl) c')) \<le> max 0 (rate_limit_requests cfg)"
proof -
  assume a: "int (length (rl c')) \<le> max 0 (rate_limit_requests cfg)"
  have "length (pruned cfg now (rl c')) \<le> length (rl c')" by (simp add: pruned_def)
  with a show ?thesis by (auto simp: is_rate_limited_unfold)
qed

lemma bound_run:
  "\<forall>c'. int (length (rl c')) \<le> max 0 (rate_limit_requests cfg) \<Longrightarrow>
   int (length (snd (rate_limit_run cfg calls rl) c')) \<le> max 0 (rate_limit_requests cfg)"
proof (induction calls arbitrary: rl)
  case Nil then show ?case by simp
next
  case (Cons p calls)
  obtain c t where p: "p = (c, t)" by (cases p)
  have "\<forall>c'. int (length (snd (is_rate_limited cfg t c rl) c')) \<le> max 0 (rate_limit_requests cfg)"
    using Cons.prems bound_step by blast
  from Cons.IH[OF this] show ?case unfolding p snd_run_Cons .
qed

text \<open>
  C2.  A check at \<open>now\<close> drops the request times that are not newer than
  \<open>now - window\<close> (so every time older than that is dropped), admits the chat exactly when
  fewer than \<open>rate_limit_requests\<close> times remain, and appends \<open>now\<close> on admission.
  Consequently: when \<open>rate_limit_requests\<close> checks for one chat were all admitted and one
  more follows, all of these within the window of each other, that one is rejected; and
  when the limit is positive, a check made once every recorded time is at least a window
  old is admitted again.
\<close>

theorem rate_limiter_sliding_window:
  "is_rate_limited cfg now c rl =
     (if int (length (filter (\<lambda>t. now - real_of_int (rate_limit_window cfg) < t) (rl c)))
           < rate_limit_requests cfg
      then (False, rl(c := filter (\<lambda>t. now - real_of_int (rate_limit_window cfg) < t) (rl c) @ [now]))
      else (True, rl(c := filter (\<lambda>t. now - real_of_int (rate_limit_window cfg) < t) (rl c)))) \<and>
   ((\<forall>r\<in>set (fst (rate_limit_run cfg (map (Pair c) ts) rl)). \<not> r) \<and>
    length ts = nat (rate_limit_requests cfg) \<and>
    (\<forall>t\<in>set ts. \<forall>t'\<in>set (ts @ [now]). t' - real_of_int (rate_limit_window cfg) < t) \<longrightarrow>
      fst (is_rate_limited cfg now c (snd (rate_limit_run cfg (map (Pair c) ts) rl))) \<and>
      (0 < rate_limit_requests cfg \<and>
       (\<forall>t\<in>set (rl c) \<union> set ts. t + real_of_int (rate_limit_window cfg) \<le> later) \<longrightarrow>
         \<not> fst (is_rate_limited cfg later c
                (snd (is_rate_limited cfg now c
                   (snd (rate_limit_run cfg (map (Pair c) ts) rl)))))))"
proof (intro conjI impI)
  show "is_rate_limited cfg now c rl =
     (if int (length (filter (\<lambda>t. now - real_of_int (rate_limit_window cfg) < t) (rl c)))
           < rate_limit_requests cfg
      then (False, rl(c := filter (\<lambda>t. now - real_of_int (rate_limit_window cfg) < t) (rl c) @ [now]))
      else (True, rl(c := filter (\<lambda>t. now - real_of_int (rate_limit_window cfg) < t) (rl c))))"
    using is_rate_limited_unfold [of cfg now c rl] by (simp add: pruned_def)
next
  assume h: "(\<forall>r\<in>set (fst (rate_limit_run cfg (map (Pair c) ts) rl)). \<not> r) \<and>
    length ts = nat (rate_limit_requests cfg) \<and>
    (\<forall>t\<in>set ts. \<forall>t'\<in>set (ts @ [now]). t' - real_of_int (rate_limit_window cfg) < t)"
  obtain rs rl1 where run: "rate_limit_run cfg (map (Pair c) ts) rl = (rs, rl1)"
    by (cases "rate_limit_run cfg (map (Pair c) ts) rl")
  from h run have "fst (is_rate_limited cfg now c rl1)"
    by (intro burst_then_limited [OF run]) auto
  with run show "fst (is_rate_limited cfg now c (snd (rate_limit_run cfg (map (Pair c) ts) rl)))"
    by simp
next
  assume h: "(\<forall>r\<in>set (fst (rate_limit_run cfg (map (Pair c) ts) rl)). \<not> r) \<and>
    length ts = nat (rate_limit_requests cfg) \<and>
    (\<forall>t\<in>set ts. \<forall>t'\<in>set (ts @ [now]). t' - real_of_int (rate_limit_window cfg) < t)"
  assume w: "0 < rate_limit_requests cfg \<and>
       (\<forall>t\<in>set (rl c) \<union> set ts. t + real_of_int (rate_limit_window cfg) \<le> later)"
  let ?rl1 = "snd (rate_limit_run cfg (map (Pair c) ts) rl)"
  let ?rl2 = "snd (is_rate_limited cfg now c ?rl1)"
  have "\<forall>t\<in>set (?rl2 c). t + real_of_int (rate_limit_window cfg) \<le> later"
  proof
    fix t assume "t \<in> set (?rl2 c)"
    then have "t \<in> set (?rl1 c) \<or> t = now"
      using set_after_call [of cfg now c ?rl1 c] by auto
    moreover have "t \<in> set (?rl1 c) \<Longrightarrow> t \<in> set (rl c) \<or> t \<in> set ts"
      using set_after_run [of t cfg "map (Pair c) ts" rl c] by auto
    moreover have "t = now \<Longrightarrow> t \<in> set (?rl1 c)"
    proof -
      assume tn: "t = now"
      obtain rs rl1 where run: "rate_limit_run cfg (map (Pair c) ts) rl = (rs, rl1)"
        by (cases "rate_limit_run cfg (map (Pair c) ts) rl")
      from h run have "fst (is_rate_limited cfg now c rl1)"
        by (intro burst_then_limited [OF run]) auto
      then have "?rl2 c = pruned cfg now (?rl1 c)"
        using run by (simp add: is_rate_limited_unfold split: if_splits)
      with \<open>t \<in> set (?rl2 c)\<close> show ?thesis by (simp add: pruned_def)
    qed
    ultimately have "t \<in> set (rl c) \<or> t \<in> set ts" by blast
    with w show "t + real_of_int (rate_limit_window cfg) \<le> later" by auto
  qed
  with w show "\<not> fst (is_rate_limited cfg later c ?rl2)"
    by (intro recovery) auto
qed

theorem rate_limiter_sliding_window_witness:
  "fst (rate_limit_run example_config (map (Pair 42) [100, 101]) rate_limits_init)
     = [False, False] \<and>
   fst (is_rate_limited example_config 102 42
          (snd (rate_limit_run example_config (map (Pair 42) [100, 101]) rate_limits_init))) \<and>
   \<not> fst (is_rate_limited example_config 162 42
            (snd (is_rate_limited example_config 102 42
               (snd (rate_limit_run example_config (map (Pair 42) [100, 101])
                  rate_limits_init)))))"
proof -
  have run: "fst (rate_limit_run example_config (map (Pair 42) [100, 101]) rate_limits_init)
      = [False, False]"
    by (simp add: is_rate_limited_def example_config_def rate_limits_init_def Let_def)
  have full: "length [100, 101 :: real] = nat (rate_limit_requests example_config)"
    and pos: "0 < rate_limit_requests example_config"
    and win: "real_of_int (rate_limit_window example_config) = 60"
    by (simp_all add: example_config_def)
  have close: "\<forall>t\<in>set [100, 101 :: real]. \<forall>t'\<in>set ([100, 101] @ [102]).
      t' - real_of_int (rate_limit_window example_config) < t"
    by (simp add: win)
  have waited: "\<forall>t\<in>set (rate_limits_init 42) \<union> set [100, 101 :: real].
      t + real_of_int (rate_limit_window example_config) \<le> 162"
    by (simp add: win rate_limits_init_def)
  from rate_limiter_sliding_window
      [of example_config 102 42 rate_limits_init "[100, 101]" 162]
  show ?thesis using run full pos close waited by simp
qed

text \<open>
  C9.  Starting from the empty state, after any sequence of checks the list stored for a
  chat has at most \<open>rate_limit_requests\<close> entries; a rejected check stores the pruned list
  and appends nothing.
\<close>

theorem rate_limit_window_bounded:
  "(0 \<le> rate_limit_requests cfg \<longrightarrow>
      int (length (snd (rate_limit_run cfg calls rate_limits_init) c))
        \<le> rate_limit_requests cfg) \<and>
   (fst (is_rate_limited cfg now c' rl) \<longrightarrow>
      snd (is_rate_limited cfg now c' rl) =
        rl(c' := filter (\<lambda>t. now - real_of_int (rate_limit_window cfg) < t) (rl c')))"
proof (intro conjI impI)
  assume "0 \<le> rate_limit_requests cfg"
  moreover have "int (length (snd (rate_limit_run cfg calls rate_limits_init) c))
      \<le> max 0 (rate_limit_requests cfg)"
    by (rule bound_run) (simp add: rate_limits_init_def)
  ultimately show "int (length (snd (rate_limit_run cfg calls rate_limits_init) c))
      \<le> rate_limit_requests cfg" by simp
next
  assume "fst (is_rate_limited cfg now c' rl)"
  then show "snd (is_rate_limited cfg now c' rl) =
      rl(c' := filter (\<lambda>t. now - real_of_int (rate_limit_window cfg) < t) (rl c'))"
    by (simp add: is_rate_limited_unfold pruned_def split: if_splits)
qed

theorem rate_limit_window_bounded_witness:
  "snd (rate_limit_run example_config [(42, 100), (7, 100), (42, 101), (42, 102)]
          rate_limits_init) 42 = [100, 101] \<and>
   is_rate_limited example_config 102 42 (rate_limits_init(42 := [100, 101]))
     = (True, rate_limits_init(42 := [100, 101]))"
proof -
  have "snd (rate_limit_run example_config [(42, 100), (7, 100), (42, 101), (42, 102)]
          rate_limits_init) 42 = [100, 101]"
    by (simp add: is_rate_limited_def example_config_def rate_limits_init_def Let_def)
  moreover have "fst (is_rate_limited example_config 102 42 (rate_limits_init(42 := [100, 101])))"
    by (simp add: is_rate_limited_def example_config_def rate_limits_init_def Let_def)
  ultimately show ?thesis
    using rate_limit_window_bounded
      [of example_config "[(42, 100), (7, 100), (42, 101), (42, 102)]" 42 102 42
          "rate_limits_init(42 := [100, 101])"]
    by (simp add: example_config_def rate_limits_init_def prod_eq_iff)
qed

section \<open>Allow-list parsing\<close>

lemma those_None: "None \<in> set xs \<Longrightarrow> those xs = None"
  by (induction xs) (auto split: option.splits)

text \<open>
  C10.  When a non-blank entry of the comma-separated string fails integer parsing, the
  parsed allow-list is empty, and a configuration holding it admits every chat id.
\<close>

theorem malformed_chat_id_opens_bot:
  "e \<in> set (py_split1 44 chat_ids_str) \<Longrightarrow> py_strip e \<noteq> [] \<Longrightarrow>
   to_int (py_strip e) = None \<Longrightarrow>
   parse_chat_ids to_int chat_ids_str = [] \<and>
   is_chat_allowed (cfg\<lparr>allowed_chat_ids := parse_chat_ids to_int chat_ids_str\<rparr>) chat_id"
proof -
  assume e: "e \<in> set (py_split1 44 chat_ids_str)" "py_strip e \<noteq> []"
    and bad: "to_int (py_strip e) = None"
  let ?fields = "filter (\<lambda>chat_id. py_strip chat_id \<noteq> []) (py_split1 44 chat_ids_str)"
  from e have "e \<in> set ?fields" by simp
  with bad have "None \<in> set (map (\<lambda>chat_id. to_int (py_strip chat_id)) ?fields)"
    by (metis (mono_tags, lifting) image_eqI list.set_map)
  then have "those (map (\<lambda>chat_id. to_int (py_strip chat_id)) ?fields) = None"
    by (rule those_None)
  then have "parse_chat_ids to_int chat_ids_str = []"
    by (simp add: parse_chat_ids_def)
  then show ?thesis by (simp add: is_chat_allowed_def)
qed

theorem malformed_chat_id_opens_bot_witness:
  "parse_chat_ids py_int (py_str ''11, 42'') = [11, 42] \<and>
   parse_chat_ids py_int (py_str ''11, x42'') = [] \<and>
   is_chat_allowed
     (example_config\<lparr>allowed_chat_ids := parse_chat_ids py_int (py_str ''11, x42'')\<rparr>) 7"
proof -
  have split: "py_split1 44 (py_str ''11, x42'') = [py_str ''11'', py_str '' x42'']"
    by (simp add: py_str_def)
  have strip: "py_strip (py_str '' x42'') = py_str ''x42''"
    by (simp add: py_str_def py_strip_def py_isspace_def)
  have bad: "py_int (py_str ''x42'') = None"
    by (simp add: py_str_def py_int_def int_isspace_def int_unsigned_def is_digit_def)
  have good: "parse_chat_ids py_int (py_str ''11, 42'') = [11, 42]"
    by (simp add: py_str_def parse_chat_ids_def py_strip_def py_isspace_def py_int_def
        int_isspace_def int_unsigned_def is_digit_def)
  have h1: "py_str '' x42'' \<in> set (py_split1 44 (py_str ''11, x42''))"
    by (simp add: split)
  have h2: "py_strip (py_str '' x42'') \<noteq> []"
    by (simp add: strip) (simp add: py_str_def)
  have h3: "py_int (py_strip (py_str '' x42'')) = None"
    by (simp add: strip bad)
  from malformed_chat_id_opens_bot
    [of "py_str '' x42''" "py_str ''11, x42''" py_int example_config 7, OF h1 h2 h3] good
  show ?thesis by blast
qed

section \<open>Markdown escaping\<close>

text \<open>
  One replacement adds one character to the set of characters that are escaped, as long
  as that character is new and is not the backslash.
\<close>

lemma replace_escaped:
  "c \<notin> S \<Longrightarrow> c \<noteq> 92 \<Longrightarrow>
   str_replace1 c [92, c] (concat (map (\<lambda>x. if x \<in> S then [92, x] else [x]) s))
     = concat (map (\<lambda>x. if x \<in> insert c S then [92, x] else [x]) s)"
  by (induction s) (auto simp: str_replace1_def)

lemma foldl_escaped:
  "distinct cs \<Longrightarrow> 92 \<notin> set cs \<Longrightarrow> set cs \<inter> S = {} \<Longrightarrow>
   foldl (\<lambda>s char. str_replace1 char [92, char] s)
     (concat (map (\<lambda>x. if x \<in> S then [92, x] else [x]) s)) cs
     = concat (map (\<lambda>x. if x \<in> S \<union> set cs then [92, x] else [x]) s)"
proof (induction cs arbitrary: S)
  case Nil
  then show ?case by simp
next
  case (Cons c cs)
  have "str_replace1 c [92, c] (concat (map (\<lambda>x. if x \<in> S then [92, x] else [x]) s))
      = concat (map (\<lambda>x. if x \<in> insert c S then [92, x] else [x]) s)"
    using Cons.prems by (intro replace_escaped) auto
  moreover have "foldl (\<lambda>s char. str_replace1 char [92, char] s)
      (concat (map (\<lambda>x. if x \<in> insert c S then [92, x] else [x]) s)) cs
      = concat (map (\<lambda>x. if x \<in> insert c S \<union> set cs then [92, x] else [x]) s)"
    using Cons.prems by (intro Cons.IH) auto
  ultimately show ?case by simp
qed

lemma special_chars_codes:
  "special_chars =
     [95, 42, 91, 93, 40, 41, 126, 96, 62, 35, 43, 45, 61, 124, 123, 125, 46, 33]"
  by (simp add: special_chars_def py_str_def)

text \<open>
  C3.  The escaped text is the input read left to right, where every character of
  \<open>_*[]()~`>#+-=|{}.!\<close> is replaced by a backslash followed by that character and every
  other character stands unchanged.
\<close>

theorem escape_markdown_spec:
  "escape_markdown s = concat (map (\<lambda>c. if c \<in> set special_chars then [92, c] else [c]) s)"
proof -
  have "distinct special_chars" "92 \<notin> set special_chars"
    by (simp_all add: special_chars_codes)
  from foldl_escaped [OF this, of "{}" s]
  show ?thesis by (auto simp: escape_markdown_def)
qed

section \<open>Signature verification\<close>

lemma hex_char_ascii: "n < 16 \<Longrightarrow> hex_char n < 128"
  by (simp add: hex_char_def)

lemma hex_pair_ascii:
  fixes b :: byte
  shows "hex_char (unat b div 16) < 128 \<and> hex_char (unat b mod 16) < 128"
proof -
  have "unat b < 2 ^ LENGTH(8)" by (rule unsigned_less)
  then have "unat b div 16 < 16" by simp
  then show ?thesis by (simp add: hex_char_ascii)
qed

lemma hexdigest_ascii: "list_all (\<lambda>c. c < 128) (hexdigest bs)"
  by (induction bs) (simp_all add: hexdigest_def hex_pair_ascii)

lemma startswith_append: "startswith (pre @ s) pre"
  by (simp add: startswith_def)

lemma verify_signature_prefixed:
  assumes "github_webhook_secret cfg \<noteq> []"
    and "utf8_encode (github_webhook_secret cfg) = Some key"
  shows "verify_signature cfg body (Some (py_str ''sha256='' @ sig)) =
         (if list_all (\<lambda>c. c < 128) sig then Inr (hexdigest (hmac_sha256 key body) = sig)
          else Inl TypeError)"
proof -
  have d: "drop 7 (py_str ''sha256='' @ sig) = sig" by (simp add: py_str_def)
  have ne: "py_str ''sha256='' @ sig \<noteq> []" by (simp add: py_str_def)
  show ?thesis using assms
    by (simp add: verify_signature_def startswith_append compare_digest_def hexdigest_ascii
        d ne del: drop_append append_is_Nil_conv)
qed

text \<open>
  The verdicts of \<open>verify_signature\<close> where it returns: no secret, no header, a header
  without the prefix, the correct digest, and a different digest of ASCII characters.
\<close>

lemma verify_signature_cases:
  "(github_webhook_secret cfg = [] \<longrightarrow> verify_signature cfg body header = Inr True) \<and>
   (github_webhook_secret cfg \<noteq> [] \<longrightarrow>
      verify_signature cfg body None = Inr False \<and>
      (\<not> startswith h (py_str ''sha256='') \<longrightarrow> verify_signature cfg body (Some h) = Inr False) \<and>
      (utf8_encode (github_webhook_secret cfg) = Some key \<longrightarrow>
         verify_signature cfg body (Some (py_str ''sha256='' @ hexdigest (hmac_sha256 key body)))
           = Inr True \<and>
         (list_all (\<lambda>c. c < 128) sig \<and> sig \<noteq> hexdigest (hmac_sha256 key body) \<longrightarrow>
            verify_signature cfg body (Some (py_str ''sha256='' @ sig)) = Inr False)))"
  by (auto simp: verify_signature_prefixed hexdigest_ascii) (auto simp: verify_signature_def)

lemma example_secret: "utf8_encode (github_webhook_secret example_config) = Some [115]"
  by (simp add: example_config_def utf8_encode_def utf8_encode_char_def py_str_def)

text \<open>
  C1.  For a header whose text after \<open>sha256=\<close> holds a non-ASCII character (here
  \<open>U+00E9\<close>), \<open>hmac.compare_digest\<close> raises \<open>TypeError\<close>: the digest differs, yet
  \<open>verify_signature\<close> does not return \<open>False\<close>.
\<close>

theorem verify_signature_non_ascii_header:
  "verify_signature example_config [123, 125] (Some (py_str ''sha256='' @ [233]))
     = Inl TypeError"
proof -
  have "github_webhook_secret example_config \<noteq> []"
    by (simp add: example_config_def py_str_def)
  from verify_signature_prefixed [OF this example_secret, of "[123, 125]" "[233]"]
  show ?thesis by simp
qed

section \<open>Push notifications\<close>

lemma escape_markdown_any_str: "escape_markdown_any (JStr s) = Some (escape_markdown s)"
  by (simp add: escape_markdown_any_def escape_markdown_def)

lemma format_commit_fields:
  "commit_fields c i \<Longrightarrow> format_commit repr c = Some (render_commit i)"
  by (auto simp: commit_fields_def format_commit_def render_commit_def escape_markdown_any_str
      split: option.splits)

lemma those_map_Some:
  "list_all2 (\<lambda>x y. f x = Some y) xs ys \<Longrightarrow> those (map f xs) = Some ys"
  by (induction xs ys rule: list_all2_induct) simp_all

lemma format_push_event_no_commits:
  "dict_get payload (py_str ''commits'') (JList []) = Some (JList []) \<Longrightarrow>
   format_push_event repr payload = None"
  by (simp add: format_push_event_def format_push_event_body_def
      split: Option.bind_split option.splits json.splits)

lemma format_push_event_render:
  assumes f: "push_fields payload repo_name repo_url ref pusher commits"
    and ne: "commits \<noteq> []"
    and cs: "list_all2 commit_fields (take 3 commits) shown"
  shows "format_push_event repr payload = Some
     ([0x1F680] @ py_str '' **Push to '' @ escape_markdown repo_name @ py_str ''**'' @ [10, 10]
      @ [0x1F33F] @ py_str '' **Branch:** ''
      @ escape_markdown (if startswith ref (py_str ''refs/heads/'')
                         then last (py_split1 47 ref) else ref) @ [10]
      @ [0x1F464] @ py_str '' **Pusher:** '' @ escape_markdown pusher @ [10]
      @ [0x1F4DD] @ py_str '' **Commits:** '' @ str_nat (length commits) @ [10, 10]
      @ concat (map render_commit shown)
      @ (if length commits > 3
         then py_str ''... and '' @ str_nat (length commits - 3) @ py_str '' more commits''
              @ [10, 10]
         else [])
      @ (if repo_url = [] then []
         else [0x1F517] @ py_str '' [View Repository]('' @ repo_url @ py_str '')''))"
proof -
  from f obtain repository pusher_d where
    r: "dict_get payload (py_str ''repository'') (JDict []) = Some repository"
    and rn: "dict_get repository (py_str ''full_name'') (JStr (py_str ''Unknown''))
               = Some (JStr repo_name)"
    and ru: "dict_get repository (py_str ''html_url'') (JStr []) = Some (JStr repo_url)"
    and rf: "dict_get payload (py_str ''ref'') (JStr []) = Some (JStr ref)"
    and cm: "dict_get payload (py_str ''commits'') (JList []) = Some (JList commits)"
    and p: "dict_get payload (py_str ''pusher'') (JDict []) = Some pusher_d"
    and pn: "dict_get pusher_d (py_str ''name'') (JStr (py_str ''Unknown'')) = Some (JStr pusher)"
    by (auto simp: push_fields_def split: option.splits)
  have "list_all2 (\<lambda>x y. format_commit repr x = Some y) (take 3 commits) (map render_commit shown)"
    using cs by (auto simp: list_all2_map2 format_commit_fields elim: list_all2_mono)
  then have lines: "those (map (format_commit repr) (take 3 commits)) = Some (map render_commit shown)"
    by (rule those_map_Some)
  show ?thesis
    using ne
    by (simp add: format_push_event_def format_push_event_body_def r rn ru rf cm p pn lines
        escape_markdown_any_str)
qed


text \<open>
  C4.  A push payload whose \<open>commits\<close> list is empty or missing yields no message.
  For a payload with string fields and a non-empty list of commits, the message shows the
  escaped repository name, the branch (the last \<open>/\<close>-separated segment of \<open>ref\<close> when
  \<open>ref\<close> starts with \<open>refs/heads/\<close>, else \<open>ref\<close>), the pusher, the number of
  commits, the first three commits at most, the line \<open>... and N more commits\<close> exactly
  when there are more than three, and the repository link when there is a URL.
\<close>

theorem format_push_event_spec:
  "(dict_get payload (py_str ''commits'') (JList []) = Some (JList []) \<longrightarrow>
      format_push_event repr payload = None) \<and>
   (push_fields payload repo_name repo_url ref pusher commits \<and> commits \<noteq> [] \<and>
    list_all2 commit_fields (take 3 commits) shown \<longrightarrow>
      format_push_event repr payload = Some
        ([0x1F680] @ py_str '' **Push to '' @ escape_markdown repo_name @ py_str ''**''
         @ [10, 10]
         @ [0x1F33F] @ py_str '' **Branch:** ''
         @ escape_markdown (if startswith ref (py_str ''refs/heads/'')
                            then last (py_split1 47 ref) else ref) @ [10]
         @ [0x1F464] @ py_str '' **Pusher:** '' @ escape_markdown pusher @ [10]
         @ [0x1F4DD] @ py_str '' **Commits:** '' @ str_nat (length commits) @ [10, 10]
         @ concat (map render_commit shown)
         @ (if length commits > 3
            then py_str ''... and '' @ str_nat (length commits - 3) @ py_str '' more commits''
                 @ [10, 10]
            else [])
         @ (if repo_url = [] then []
            else [0x1F517] @ py_str '' [View Repository]('' @ repo_url @ py_str '')'')))"
  using format_push_event_no_commits [of payload repr]
    format_push_event_render [of payload repo_name repo_url ref pusher commits shown repr]
  by blast

theorem format_push_event_spec_witness:
  "format_push_event (\<lambda>v. []) (JDict [(py_str ''ref'', JStr (py_str ''refs/heads/main''))])
     = None \<and>
   format_push_event (\<lambda>v. []) example_push = Some example_push_message"
proof -
  have none: "dict_get (JDict [(py_str ''ref'', JStr (py_str ''refs/heads/main''))])
      (py_str ''commits'') (JList []) = Some (JList [])"
    by (simp add: py_str_def)
  have f: "push_fields example_push (py_str ''octo/hello-world'')
      (py_str ''https://example.org/r'') (py_str ''refs/heads/main'') (py_str ''octo.cat'')
      (map example_commit [49, 50, 51, 52, 53])"
    by (simp add: push_fields_def example_push_def py_str_def)
  have ne: "map example_commit [49, 50, 51, 52, 53] \<noteq> []" by simp
  have cf: "commit_fields (example_commit d) (example_commit_info d)" for d
    by (simp add: commit_fields_def example_commit_def example_commit_info_def py_str_def)
  have c: "list_all2 commit_fields (take 3 (map example_commit [49, 50, 51, 52, 53]))
      (map example_commit_info [49, 50, 51])"
    by (simp add: cf)
  have n5: "str_nat 5 = [53]" and n2: "str_nat 2 = [50]" by simp_all
  have br: "last (py_split1 47 (py_str ''refs/heads/main'')) = py_str ''main''"
    by (simp add: py_str_def)
  have sw: "startswith (py_str ''refs/heads/main'') (py_str ''refs/heads/'')"
    by (simp add: startswith_def py_str_def)
  have e1: "escape_markdown (py_str ''octo/hello-world'')
        = py_str ''octo/hello'' @ [92] @ py_str ''-world''"
    and e2: "escape_markdown (py_str ''main'') = py_str ''main''"
    and e3: "escape_markdown (py_str ''octo.cat'') = py_str ''octo'' @ [92] @ py_str ''.cat''"
    and e4: "escape_markdown (py_str ''Ann_B'') = py_str ''Ann'' @ [92] @ py_str ''_B''"
    by (simp_all add: escape_markdown_def str_replace1_def special_chars_codes py_str_def)
  have e5: "escape_markdown (py_str ''Fix bug #'' @ [49])
        = py_str ''Fix bug '' @ [92] @ py_str ''#1''"
    "escape_markdown (py_str ''Fix bug #'' @ [50]) = py_str ''Fix bug '' @ [92] @ py_str ''#2''"
    "escape_markdown (py_str ''Fix bug #'' @ [51]) = py_str ''Fix bug '' @ [92] @ py_str ''#3''"
    by (simp_all add: escape_markdown_def str_replace1_def special_chars_codes py_str_def)
  from format_push_event_spec
    [of "JDict [(py_str ''ref'', JStr (py_str ''refs/heads/main''))]" "\<lambda>v. []"] none
  have a: "format_push_event (\<lambda>v. [])
      (JDict [(py_str ''ref'', JStr (py_str ''refs/heads/main''))]) = None"
    by blast
  from format_push_event_spec
    [of example_push "\<lambda>v. []" "py_str ''octo/hello-world''" "py_str ''https://example.org/r''"
        "py_str ''refs/heads/main''" "py_str ''octo.cat''"
        "map example_commit [49, 50, 51, 52, 53]" "map example_commit_info [49, 50, 51]"]
    f ne c
  have "format_push_event (\<lambda>v. []) example_push = Some
     ([0x1F680] @ py_str '' **Push to '' @ escape_markdown (py_str ''octo/hello-world'')
      @ py_str ''**'' @ [10, 10]
      @ [0x1F33F] @ py_str '' **Branch:** ''
      @ escape_markdown (if startswith (py_str ''refs/heads/main'') (py_str ''refs/heads/'')
                         then last (py_split1 47 (py_str ''refs/heads/main''))
                         else py_str ''refs/heads/main'') @ [10]
      @ [0x1F464] @ py_str '' **Pusher:** '' @ escape_markdown (py_str ''octo.cat'') @ [10]
      @ [0x1F4DD] @ py_str '' **Commits:** ''
      @ str_nat (length (map example_commit [49, 50, 51, 52, 53])) @ [10, 10]
      @ concat (map render_commit (map example_commit_info [49, 50, 51]))
      @ (if length (map example_commit [49, 50, 51, 52, 53]) > 3
         then py_str ''... and '' @ str_nat (length (map example_commit [49, 50, 51, 52, 53]) - 3)
              @ py_str '' more commits'' @ [10, 10]
         else [])
      @ (if py_str ''https://example.org/r'' = [] then []
         else [0x1F517] @ py_str '' [View Repository]('' @ py_str ''https://example.org/r''
              @ py_str '')''))"
    by blast
  then have b: "format_push_event (\<lambda>v. []) example_push = Some example_push_message"
    by (simp add: sw br e1 e2 e3 e4 e5 n5 n2 render_commit_def example_commit_info_def
        example_push_message_def)
       (simp add: py_str_def)
  from a b show ?thesis by blast
qed

section \<open>Webhook responses\<close>

text \<open>The response of \<open>process_webhook\<close> in each case.\<close>

lemma process_webhook_cases:
  "fst (process_webhook json_loads repr cfg req) =
     (case verify_signature cfg (get_data req) (x_hub_signature_256 req) of
        Inl e \<Rightarrow> ((py_str ''error'', py_str ''Internal server error''), 500)
      | Inr False \<Rightarrow> ((py_str ''error'', py_str ''Invalid signature''), 403)
      | Inr True \<Rightarrow>
          (case utf8_decode (get_data req) of
             None \<Rightarrow> ((py_str ''error'', py_str ''Internal server error''), 500)
           | Some body_text \<Rightarrow>
               (case json_loads body_text of
                  Inl e \<Rightarrow> if e = JSONDecodeError
                            then ((py_str ''error'', py_str ''Invalid JSON''), 400)
                            else ((py_str ''error'', py_str ''Internal server error''), 500)
                | Inr payload \<Rightarrow> ((py_str ''status'', py_str ''success''), 200))))"
  by (simp add: process_webhook_def split: sum.splits bool.splits option.splits exn.splits)

text \<open>
  C5.  A body that is not valid UTF-8 (the single octet \<open>0xFF\<close>) raises
  \<open>UnicodeDecodeError\<close>, which is not a \<open>JSONDecodeError\<close>: the response is 500 and not
  400.  A signature header with a non-ASCII character makes \<open>verify_signature\<close> raise:
  the response is 500 and not 403.
\<close>

theorem process_webhook_undecodable_body:
  "fst (process_webhook json_loads repr (example_config\<lparr>github_webhook_secret := []\<rparr>)
          \<lparr>get_data = [0xFF], x_hub_signature_256 = None,
            x_github_event = Some (py_str ''push'')\<rparr>)
     = ((py_str ''error'', py_str ''Internal server error''), 500) \<and>
   fst (process_webhook json_loads repr example_config
          \<lparr>get_data = [123, 125], x_hub_signature_256 = Some (py_str ''sha256='' @ [233]),
            x_github_event = Some (py_str ''push'')\<rparr>)
     = ((py_str ''error'', py_str ''Internal server error''), 500)"
proof -
  have "utf8_decode [0xFF] = None"
    by (simp add: utf8_decode_def)
  moreover have "verify_signature example_config [123, 125]
      (Some (py_str ''sha256='' @ [233])) = Inl TypeError"
  proof -
    have "github_webhook_secret example_config \<noteq> []"
      by (simp add: example_config_def py_str_def)
    from verify_signature_prefixed [OF this example_secret, of "[123, 125]" "[233]"]
    show ?thesis by simp
  qed
  ultimately show ?thesis
    by (simp add: process_webhook_def verify_signature_def)
qed

section \<open>Command routing\<close>

lemma startswith_takeWhile:
  "list_all (\<lambda>c. \<not> py_isspace c) pre \<Longrightarrow>
   startswith (takeWhile (\<lambda>x. \<not> py_isspace x) s) pre = startswith s pre"
proof (induction pre arbitrary: s)
  case Nil
  then show ?case by (simp add: startswith_def)
next
  case (Cons p pre)
  show ?case
  proof (cases s)
    case Nil
    then show ?thesis by (simp add: startswith_def)
  next
    case (Cons c cs)
    have ih: "startswith (takeWhile (\<lambda>x. \<not> py_isspace x) cs) pre = startswith cs pre"
      using Cons.prems by (intro Cons.IH) simp
    have p: "\<not> py_isspace p" using Cons.prems by simp
    show ?thesis
    proof (cases "py_isspace c")
      case True
      with p have "c \<noteq> p" by auto
      with True Cons show ?thesis by (simp add: startswith_def)
    next
      case False
      with Cons ih show ?thesis by (simp add: startswith_def)
    qed
  qed
qed

lemma first_token_no_leading_space:
  "s \<noteq> [] \<Longrightarrow> \<not> py_isspace (hd s) \<Longrightarrow>
   first_token s = Some (takeWhile (\<lambda>x. \<not> py_isspace x) s)"
  by (cases s) (simp_all add: first_token_def)

lemma command_prefixes_no_space:
  "list_all (\<lambda>c. \<not> py_isspace c) (py_str ''/start'')"
  "list_all (\<lambda>c. \<not> py_isspace c) (py_str ''/help'')"
  "list_all (\<lambda>c. \<not> py_isspace c) (py_str ''/profile'')"
  "list_all (\<lambda>c. \<not> py_isspace c) (py_str ''/repos'')"
  "list_all (\<lambda>c. \<not> py_isspace c) (py_str ''/repo'')"
  "list_all (\<lambda>c. \<not> py_isspace c) (py_str ''/commits'')"
  "list_all (\<lambda>c. \<not> py_isspace c) (py_str ''/issues'')"
  "list_all (\<lambda>c. \<not> py_isspace c) (py_str ''/search'')"
  "list_all (\<lambda>c. \<not> py_isspace c) (py_str ''/status'')"
  by (simp_all add: py_str_def py_isspace_def)

lemma route_command_takeWhile:
  "route_command (takeWhile (\<lambda>x. \<not> py_isspace x) s) = route_command s"
  unfolding route_command_def
  by (simp only: startswith_takeWhile [OF command_prefixes_no_space(1)]
      startswith_takeWhile [OF command_prefixes_no_space(2)]
      startswith_takeWhile [OF command_prefixes_no_space(3)]
      startswith_takeWhile [OF command_prefixes_no_space(4)]
      startswith_takeWhile [OF command_prefixes_no_space(5)]
      startswith_takeWhile [OF command_prefixes_no_space(6)]
      startswith_takeWhile [OF command_prefixes_no_space(7)]
      startswith_takeWhile [OF command_prefixes_no_space(8)]
      startswith_takeWhile [OF command_prefixes_no_space(9)])

lemma route_agree:
  "s \<noteq> [] \<Longrightarrow> \<not> py_isspace (hd s) \<Longrightarrow> route_first_token s = route_command s"
  by (simp add: route_first_token_def first_token_no_leading_space route_command_takeWhile)

text \<open>
  C6 (amended).  The handler is chosen by prefix match on the message text itself, in the
  order of the \<open>if\<close> chain; for a text that does not begin with whitespace this is
  prefix match on its first whitespace-delimited token.  A text with no matching prefix
  gets the unknown-command reply, and it gets it behind the same \<open>check_permissions\<close>
  gate (allow-list, then rate limit) that every command handler passes first.
\<close>

theorem command_routing:
  "(message_text \<noteq> [] \<and> \<not> py_isspace (hd message_text) \<longrightarrow>
      route_command message_text = route_first_token message_text) \<and>
   (message upd = Some (Message (Some message_text)) \<and> message_text \<noteq> [] \<longrightarrow>
      handle_message cfg now upd rl =
        (case check_permissions cfg now upd rl of
           ((True, replies), rl') \<Rightarrow>
             ((case route_command message_text of
                 Some c \<Rightarrow> RunHandler c
               | None \<Rightarrow> Reply unknown_command_text), rl')
         | ((False, replies), rl') \<Rightarrow> (Denied replies, rl')))"
  by (auto simp: route_agree handle_message_def split: option.splits prod.splits bool.splits)

theorem command_routing_witness:
  "route_first_token (py_str ''/help me'') = Some Help \<and>
   route_command (py_str ''/help me'') = Some Help \<and>
   fst (handle_message example_config 100
          \<lparr>message = Some (Message (Some (py_str ''hello''))), effective_chat = Some 42\<rparr>
          rate_limits_init) = Reply unknown_command_text \<and>
   fst (handle_message example_config 100
          \<lparr>message = Some (Message (Some (py_str ''hello''))), effective_chat = Some 7\<rparr>
          rate_limits_init) = Denied [unauthorized_text]"
proof -
  have r1: "route_command (py_str ''/help me'') = Some Help"
    by (simp add: route_command_def startswith_def py_str_def)
  have r2: "route_command (py_str ''hello'') = None"
    by (simp add: route_command_def startswith_def py_str_def)
  have h1: "py_str ''/help me'' \<noteq> [] \<and> \<not> py_isspace (hd (py_str ''/help me''))"
    by (simp add: py_str_def py_isspace_def)
  have h2: "py_str ''hello'' \<noteq> []"
    by (simp add: py_str_def)
  have p42: "check_permissions example_config 100
      \<lparr>message = Some (Message (Some (py_str ''hello''))), effective_chat = Some 42\<rparr>
      rate_limits_init = ((True, []), rate_limits_init(42 := [100]))"
    by (simp add: check_permissions_def is_chat_allowed_def is_rate_limited_def
        example_config_def rate_limits_init_def Let_def)
  have p7: "check_permissions example_config 100
      \<lparr>message = Some (Message (Some (py_str ''hello''))), effective_chat = Some 7\<rparr>
      rate_limits_init = ((False, [unauthorized_text]), rate_limits_init)"
    by (simp add: check_permissions_def is_chat_allowed_def example_config_def)
  from command_routing [of "py_str ''/help me''"] h1 r1
  have "route_first_token (py_str ''/help me'') = Some Help" by simp
  moreover from command_routing
    [of "py_str ''hello''"
        "\<lparr>message = Some (Message (Some (py_str ''hello''))), effective_chat = Some 42\<rparr>"
        example_config 100 rate_limits_init] h2 p42 r2
  have "fst (handle_message example_config 100
          \<lparr>message = Some (Message (Some (py_str ''hello''))), effective_chat = Some 42\<rparr>
          rate_limits_init) = Reply unknown_command_text" by simp
  moreover from command_routing
    [of "py_str ''hello''"
        "\<lparr>message = Some (Message (Some (py_str ''hello''))), effective_chat = Some 7\<rparr>"
        example_config 100 rate_limits_init] h2 p7 r2
  have "fst (handle_message example_config 100
          \<lparr>message = Some (Message (Some (py_str ''hello''))), effective_chat = Some 7\<rparr>
          rate_limits_init) = Denied [unauthorized_text]" by simp
  ultimately show ?thesis using r1 by simp
qed

text \<open>
  C6 as stated fails on a text with leading whitespace: the first token of \<open>" /help"\<close>
  is \<open>/help\<close>, but the text itself starts with a space and takes the \<open>else\<close> branch.
\<close>

theorem leading_space_routing_counterexample:
  "route_command (py_str '' /help'') = None \<and>
   route_first_token (py_str '' /help'') = Some Help"
  by (simp add: route_command_def route_first_token_def first_token_def startswith_def
      py_str_def py_isspace_def)

end
